theory Spec2Isabelle
  imports Complex_Main "HOL-Library.Sublist"
begin

section \<open>Strings and numbers\<close>

text \<open>
  A JavaScript string is modelled as a \<open>string\<close> over ASCII characters, a \<open>number\<close> that
  counts (servings, an array index, an HTTP status) as \<open>int\<close> or \<open>nat\<close>, and any other
  \<open>number\<close> (cooking time, rating, the slider's value) as \<open>real\<close>: no NaN reaches the
  comparisons below, since JSON has none and the slider yields numbers.
\<close>

definition isSpace :: "char \<Rightarrow> bool" where
  \<comment> \<open>the ASCII part of the regular expression class \<open>\s\<close>, which is also what \<open>trim\<close> removes\<close>
  "isSpace c = (c \<in> set [CHR 0x09, CHR 0x0A, CHR 0x0B, CHR 0x0C, CHR 0x0D, CHR '' ''])"

definition isJsonSpace :: "char \<Rightarrow> bool" where
  \<comment> \<open>the white space JSON allows around a value: tab, line feed, carriage return, space\<close>
  "isJsonSpace c = (c \<in> set [CHR 0x09, CHR 0x0A, CHR 0x0D, CHR '' ''])"

definition trim :: "string \<Rightarrow> string" where
  "trim s = rev (dropWhile isSpace (rev (dropWhile isSpace s)))"

definition toLowerChar :: "char \<Rightarrow> char" where
  "toLowerChar c =
     (case map_of (zip ''ABCDEFGHIJKLMNOPQRSTUVWXYZ'' ''abcdefghijklmnopqrstuvwxyz'') c of
        Some l \<Rightarrow> l
      | None \<Rightarrow> c)"

definition toLowerCase :: "string \<Rightarrow> string" where
  "toLowerCase s = map toLowerChar s"

definition equalIgnoringCase :: "string \<Rightarrow> string \<Rightarrow> bool" where
  \<comment> \<open>the comparison the Ingredient Store's uniqueness is stated with\<close>
  "equalIgnoringCase a b = (toLowerCase a = toLowerCase b)"

definition digit :: "nat \<Rightarrow> char" where
  "digit d = ''0123456789'' ! d"

fun statusText :: "nat \<Rightarrow> string" where
  \<comment> \<open>\<open>`${response.status}`\<close>: the decimal digits of a natural number\<close>
  "statusText n = (if n < 10 then [digit n] else statusText (n div 10) @ [digit (n mod 10)])"

text \<open>An exception is an \<open>Error\<close> object of one of three classes, with its message.\<close>

datatype exn = Error string | TypeError string | SyntaxError string

fun message :: "exn \<Rightarrow> string" where
  "message (Error m) = m"
| "message (TypeError m) = m"
| "message (SyntaxError m) = m"

section \<open>Recipes\<close>

text \<open>
  \<open>interface Recipe\<close>. The service sends recipes without \<open>id\<close>
  (\<open>Omit<Recipe, 'id'>\<close>); the client adds it. The field \<open>id\<close> is \<open>recipe_id\<close> here, and the
  fields \<open>ingredients\<close>, \<open>dietary\<close> and \<open>servings\<close> of a recipe carry the prefix \<open>r_\<close>, the
  plain names being those of the home page's state.
\<close>

record recipe_data =
  title :: string
  imageUrl :: string
  r_ingredients :: "string list"
  cookingTime :: real
  difficulty :: string
  r_dietary :: "string list"
  rating :: real
  description :: "string option"
  instructions :: "string list option"
  nutritionalInfo :: "string option"
  r_servings :: "string option"

record recipe = recipe_data +
  recipe_id :: nat

definition withId :: "recipe_data \<Rightarrow> nat \<Rightarrow> recipe" where
  \<comment> \<open>\<open>{...recipe, id: index}\<close>\<close>
  "withId r index = recipe_data.extend r (recipe.fields index)"

fun mapIndexed :: "('a \<Rightarrow> nat \<Rightarrow> 'b) \<Rightarrow> nat \<Rightarrow> 'a list \<Rightarrow> 'b list" where
  \<comment> \<open>\<open>Array.prototype.map\<close> with its index argument, from index \<open>i\<close> on\<close>
  "mapIndexed f i [] = []"
| "mapIndexed f i (x # xs) = f x i # mapIndexed f (Suc i) xs"

definition recipesWithIds :: "recipe_data list \<Rightarrow> recipe list" where
  "recipesWithIds parsedRecipes = mapIndexed withId 0 parsedRecipes"

section \<open>The filter effect of the recipes page\<close>

definition arrayIncludes :: "'a list \<Rightarrow> 'a \<Rightarrow> bool" where
  "arrayIncludes xs x = (x \<in> set xs)"

definition filterRecipes :: "recipe list \<Rightarrow> string list \<Rightarrow> real \<Rightarrow> recipe list" where
  "filterRecipes recipes difficultyFilter maxTimeFilter =
     (let tempRecipes = recipes;
          tempRecipes = (if length difficultyFilter > 0
                         then filter (\<lambda>recipe. arrayIncludes difficultyFilter (difficulty recipe)) tempRecipes
                         else tempRecipes)
      in filter (\<lambda>recipe. cookingTime recipe \<le> maxTimeFilter) tempRecipes)"

definition handleDifficultyToggle :: "string \<Rightarrow> string list \<Rightarrow> string list" where
  "handleDifficultyToggle d prev =
     (if arrayIncludes prev d then filter (\<lambda>x. x \<noteq> d) prev else prev @ [d])"

section \<open>The home page\<close>

definition popularIngredients :: "string list" where
  "popularIngredients =
     [''Chicken'', ''Beef'', ''Rice'', ''Pasta'', ''Tomatoes'', ''Onions'', ''Garlic'',
      ''Bell Peppers'', ''Cheese'', ''Eggs'', ''Potatoes'', ''Carrots'']"

definition cuisines :: "string list" where
  "cuisines =
     [''Any'', ''Italian'', ''Mexican'', ''Indian'', ''Asian'', ''American'', ''Mediterranean'']"

record dietaryPreferences =
  vegetarian :: bool
  vegan :: bool
  glutenfree :: bool

record homePage =
  ingredients :: "string list"
  inputValue :: string
  dietary :: dietaryPreferences
  servings :: int
  cuisine :: string
  imageFile :: "string option"
  imagePreview :: "string option"
  isRecognizing :: bool
  recognitionError :: "string option"

definition initialHomePage :: homePage where
  \<comment> \<open>the \<open>useState\<close> initial values of a freshly mounted home page\<close>
  "initialHomePage =
     \<lparr>ingredients = [], inputValue = [],
      dietary = \<lparr>vegetarian = False, vegan = False, glutenfree = False\<rparr>,
      servings = 2, cuisine = ''Any'',
      imageFile = None, imagePreview = None, isRecognizing = False, recognitionError = None\<rparr>"

definition handleAddIngredient :: "homePage \<Rightarrow> homePage" where
  "handleAddIngredient h =
     (let formattedIngredient = toLowerCase (trim (inputValue h))
      in if formattedIngredient \<noteq> [] \<and> \<not> arrayIncludes (ingredients h) formattedIngredient
         then h\<lparr>ingredients := ingredients h @ [formattedIngredient], inputValue := []\<rparr>
         else h)"

definition addPopularIngredient :: "string \<Rightarrow> homePage \<Rightarrow> homePage" where
  "addPopularIngredient ingredient h =
     (let lowerCaseIngredient = toLowerCase ingredient
      in if \<not> arrayIncludes (ingredients h) lowerCaseIngredient
         then h\<lparr>ingredients := ingredients h @ [lowerCaseIngredient]\<rparr>
         else h)"

definition handleRemoveIngredient :: "string \<Rightarrow> homePage \<Rightarrow> homePage" where
  "handleRemoveIngredient ingredientToRemove h =
     h\<lparr>ingredients := filter (\<lambda>ing. ing \<noteq> ingredientToRemove) (ingredients h)\<rparr>"

fun setAddAll :: "'a list \<Rightarrow> 'a list \<Rightarrow> 'a list" where
  \<comment> \<open>adding the elements of a list to a JavaScript \<open>Set\<close>, kept in insertion order\<close>
  "setAddAll acc [] = acc"
| "setAddAll acc (x # xs) = setAddAll (if x \<in> set acc then acc else acc @ [x]) xs"

definition arrayFromSet :: "'a list \<Rightarrow> 'a list" where
  \<comment> \<open>\<open>Array.from(new Set(xs))\<close>: the first occurrence of each element, in order\<close>
  "arrayFromSet xs = setAddAll [] xs"

definition recognizeSuccess :: "string list \<Rightarrow> string list \<Rightarrow> homePage \<Rightarrow> homePage" where
  \<comment> \<open>\<open>handleRecognizeIngredients\<close> after an ok response: \<open>captured\<close> is the value of
      \<open>ingredients\<close> the handler closed over when the button was pressed, \<open>recognized\<close> the
      array of the response\<close>
  "recognizeSuccess captured recognized h =
     (let newIngredients = arrayFromSet (captured @ recognized)
      in h\<lparr>ingredients := newIngredients, imageFile := None, imagePreview := None,
           isRecognizing := False\<rparr>)"

definition recognizeFailure :: "exn \<Rightarrow> homePage \<Rightarrow> homePage" where
  \<comment> \<open>the \<open>catch (err)\<close> and \<open>finally\<close> of \<open>handleRecognizeIngredients\<close>\<close>
  "recognizeFailure err h = h\<lparr>recognitionError := Some (message err), isRecognizing := False\<rparr>"

definition handleImageChange :: "string \<Rightarrow> string \<Rightarrow> homePage \<Rightarrow> homePage" where
  \<comment> \<open>a file was chosen; \<open>url\<close> is what \<open>URL.createObjectURL\<close> returns for it\<close>
  "handleImageChange file url h =
     h\<lparr>imageFile := Some file, imagePreview := Some url, recognitionError := None\<rparr>"

definition handleRecognizeIngredients :: "homePage \<Rightarrow> homePage" where
  \<comment> \<open>up to the start of the file read; the rest runs when the request settles\<close>
  "handleRecognizeIngredients h =
     (if imageFile h = None then h else h\<lparr>isRecognizing := True, recognitionError := None\<rparr>)"

definition handleDietaryChange :: "string \<Rightarrow> bool \<Rightarrow> homePage \<Rightarrow> homePage" where
  \<comment> \<open>\<open>{...prev, [name]: checked}\<close>; the three checkboxes carry the names of the three keys\<close>
  "handleDietaryChange name checked h =
     (if name = ''vegetarian'' then h\<lparr>dietary := (dietary h)\<lparr>vegetarian := checked\<rparr>\<rparr>
      else if name = ''vegan'' then h\<lparr>dietary := (dietary h)\<lparr>vegan := checked\<rparr>\<rparr>
      else if name = ''glutenfree'' then h\<lparr>dietary := (dietary h)\<lparr>glutenfree := checked\<rparr>\<rparr>
      else h)"

definition decrementServings :: "int \<Rightarrow> int" where
  "decrementServings s = max 1 (s - 1)"

definition incrementServings :: "int \<Rightarrow> int" where
  "incrementServings s = s + 1"

definition selectedDietary :: "dietaryPreferences \<Rightarrow> string list" where
  \<comment> \<open>\<open>Object.keys(dietary).filter(key => dietary[key])\<close>\<close>
  "selectedDietary d =
     map fst (filter snd
       [(''vegetarian'', vegetarian d), (''vegan'', vegan d), (''glutenfree'', glutenfree d)])"

section \<open>The platform: JSON values, exceptions, responses\<close>

text \<open>
  What the browser provides is a parameter: \<open>JSON.parse\<close>, the texts of the exceptions it
  raises, the conversion of a value to a string, and the unchecked view of a parsed value
  at the type the code declares for it (\<open>Omit<Recipe, 'id'>\<close>).
\<close>

datatype json =
    JNull
  | JBool bool
  | JNum real
  | JStr string
  | JArr "json list"
  | JObj "(string \<times> json) list"

record platform =
  JSON_parse :: "string \<Rightarrow> json option"
  syntaxErrorMessage :: "string \<Rightarrow> string"
  bodyUsedMessage :: string
  nullPropertyMessage :: string
  notAFunctionMessage :: string
  ToString :: "json \<Rightarrow> string"
  asRecipe :: "json \<Rightarrow> recipe_data"

text \<open>
  A \<open>Response\<close> of the Fetch API. Its body is a stream that is read once: \<open>json()\<close> and
  \<open>text()\<close> both consume it, whether or not the text then parses, and both reject with a
  \<open>TypeError\<close> when it has been consumed already. A response with a status that carries
  no body (304, say) has the body \<open>null\<close>, here \<open>None\<close>: reading it yields the empty text,
  consumes nothing and can be repeated.
\<close>

record response =
  status :: nat
  body :: "string option"
  bodyUsed :: bool

definition bodyText :: "response \<Rightarrow> string" where
  \<comment> \<open>the text that a read of the body yields\<close>
  "bodyText r = (case body r of None \<Rightarrow> [] | Some b \<Rightarrow> b)"

definition ok :: "response \<Rightarrow> bool" where
  "ok r = (200 \<le> status r \<and> status r \<le> 299)"

definition response_text :: "platform \<Rightarrow> response \<Rightarrow> (exn + string) \<times> response" where
  "response_text P r =
     (case body r of
        None \<Rightarrow> (Inr [], r)
      | Some b \<Rightarrow>
          if bodyUsed r then (Inl (TypeError (bodyUsedMessage P)), r)
          else (Inr b, r\<lparr>bodyUsed := True\<rparr>))"

definition response_json :: "platform \<Rightarrow> response \<Rightarrow> (exn + json) \<times> response" where
  "response_json P r =
     (case body r of
        None \<Rightarrow>
          (case JSON_parse P [] of
             None \<Rightarrow> (Inl (SyntaxError (syntaxErrorMessage P [])), r)
           | Some v \<Rightarrow> (Inr v, r))
      | Some b \<Rightarrow>
          if bodyUsed r then (Inl (TypeError (bodyUsedMessage P)), r)
          else (case JSON_parse P b of
                  None \<Rightarrow> (Inl (SyntaxError (syntaxErrorMessage P b)), r\<lparr>bodyUsed := True\<rparr>)
                | Some v \<Rightarrow> (Inr v, r\<lparr>bodyUsed := True\<rparr>)))"

fun truthy :: "json \<Rightarrow> bool" where
  "truthy JNull = False"
| "truthy (JBool b) = b"
| "truthy (JNum n) = (n \<noteq> 0)"
| "truthy (JStr s) = (s \<noteq> [])"
| "truthy (JArr xs) = True"
| "truthy (JObj kvs) = True"

fun toStr :: "platform \<Rightarrow> json \<Rightarrow> string" where
  "toStr P (JStr s) = s"
| "toStr P v = ToString P v"

section \<open>The recipe client\<close>

definition errorFromData :: "platform \<Rightarrow> json \<Rightarrow> exn" where
  \<comment> \<open>\<open>throw new Error(errorData.error || 'Failed to fetch recipes from the server.')\<close>;
      reading a property of \<open>null\<close> throws instead\<close>
  "errorFromData P errorData =
     (case errorData of
        JNull \<Rightarrow> TypeError (nullPropertyMessage P)
      | JObj kvs \<Rightarrow>
          (case map_of kvs ''error'' of
             Some v \<Rightarrow> if truthy v then Error (toStr P v)
                       else Error ''Failed to fetch recipes from the server.''
           | None \<Rightarrow> Error ''Failed to fetch recipes from the server.'')
      | _ \<Rightarrow> Error ''Failed to fetch recipes from the server.'')"

definition tryErrorData :: "platform \<Rightarrow> response \<Rightarrow> exn \<times> response" where
  \<comment> \<open>the inner \<open>try\<close> block of the non-ok branch: it ends by an exception on every path\<close>
  "tryErrorData P r =
     (case response_json P r of
        (Inl e, r') \<Rightarrow> (e, r')
      | (Inr errorData, r') \<Rightarrow> (errorFromData P errorData, r'))"

definition catchErrorData :: "platform \<Rightarrow> exn \<Rightarrow> response \<Rightarrow> exn" where
  \<comment> \<open>the inner \<open>catch (e)\<close> block: \<open>e\<close> is not used; the template literal reads the status,
      then awaits \<open>response.text()\<close>, whose rejection leaves the block before the \<open>Error\<close>
      is built\<close>
  "catchErrorData P e r =
     (let st = statusText (status r)
      in case response_text P r of
           (Inl e', r') \<Rightarrow> e'
         | (Inr t, r') \<Rightarrow> Error (''Server returned status '' @ st @ '': '' @ t))"

definition nonOkError :: "platform \<Rightarrow> response \<Rightarrow> exn" where
  \<comment> \<open>the exception that leaves \<open>if (!response.ok) { try ... catch ... }\<close>\<close>
  "nonOkError P r = (case tryErrorData P r of (e, r') \<Rightarrow> catchErrorData P e r')"

definition fenceStart :: string where
  "fenceStart = ''```json''"

definition fenceEnd :: string where
  "fenceEnd = ''```''"

definition stripFenceStart :: "string \<Rightarrow> string" where
  \<comment> \<open>\<open>.replace(/^```json\s*/, '')\<close>\<close>
  "stripFenceStart s =
     (if prefix fenceStart s then dropWhile isSpace (drop (length fenceStart) s) else s)"

definition stripFenceEnd :: "string \<Rightarrow> string" where
  \<comment> \<open>\<open>.replace(/```$/, '')\<close>\<close>
  "stripFenceEnd s =
     (if suffix fenceEnd s then take (length s - length fenceEnd) s else s)"

definition cleanText :: "string \<Rightarrow> string" where
  "cleanText responseText = stripFenceEnd (stripFenceStart responseText)"

definition parseRecipes :: "platform \<Rightarrow> string \<Rightarrow> exn + recipe list" where
  \<comment> \<open>from \<open>cleanedText\<close> to \<open>recipesWithIds\<close>; \<open>.map\<close> exists on arrays only\<close>
  "parseRecipes P responseText =
     (let cleanedText = cleanText responseText
      in case JSON_parse P cleanedText of
           None \<Rightarrow> Inl (SyntaxError (syntaxErrorMessage P cleanedText))
         | Some parsedRecipes \<Rightarrow>
             (case parsedRecipes of
                JArr xs \<Rightarrow> Inr (recipesWithIds (map (asRecipe P) xs))
              | JNull \<Rightarrow> Inl (TypeError (nullPropertyMessage P))
              | _ \<Rightarrow> Inl (TypeError (notAFunctionMessage P))))"

definition fetchRecipesResult :: "platform \<Rightarrow> exn + response \<Rightarrow> exn + recipe list" where
  \<comment> \<open>the outer \<open>try\<close> block of \<open>fetchRecipes\<close>, from the outcome of \<open>fetch\<close> (\<open>Inl\<close>: the
      request itself failed): the recipes to store, or the exception caught\<close>
  "fetchRecipesResult P fetched =
     (case fetched of
        Inl e \<Rightarrow> Inl e
      | Inr response \<Rightarrow>
          if \<not> ok response then Inl (nonOkError P response)
          else (case response_text P response of
                  (Inl e, r') \<Rightarrow> Inl e
                | (Inr responseText, r') \<Rightarrow> parseRecipes P responseText))"

section \<open>The recipes page\<close>

record search_params =
  sp_ingredients :: "string list"
  sp_dietary :: "string list"
  sp_servings :: int
  sp_cuisine :: string

record recipesPage =
  props :: search_params
  recipes :: "recipe list"
  isLoading :: bool
  error :: "string option"
  difficultyFilter :: "string list"
  maxTimeFilter :: real
  filteredRecipes :: "recipe list"

definition filterEffect :: "recipesPage \<Rightarrow> recipesPage" where
  \<comment> \<open>the effect on \<open>[recipes, difficultyFilter, maxTimeFilter]\<close>\<close>
  "filterEffect p =
     p\<lparr>filteredRecipes := filterRecipes (recipes p) (difficultyFilter p) (maxTimeFilter p)\<rparr>"

definition mountRecipesPage :: "search_params \<Rightarrow> recipesPage" where
  \<comment> \<open>a freshly mounted recipes page, its two effects run: the request is on its way\<close>
  "mountRecipesPage q =
     filterEffect
       \<lparr>props = q, recipes = [], isLoading = True, error = None, difficultyFilter = [],
        maxTimeFilter = 120, filteredRecipes = []\<rparr>"

definition fetchDone :: "exn + recipe list \<Rightarrow> recipesPage \<Rightarrow> recipesPage" where
  \<comment> \<open>what \<open>fetchRecipes\<close> does with the outcome of its \<open>try\<close> block: \<open>setRecipes\<close> or the
      \<open>catch (err)\<close>, then \<open>finally\<close>, then the filter effect\<close>
  "fetchDone result p =
     filterEffect
       (case result of
          Inl err \<Rightarrow> p\<lparr>error := Some (message err), isLoading := False\<rparr>
        | Inr rs \<Rightarrow> p\<lparr>recipes := rs, isLoading := False\<rparr>)"

definition fetchRecipes :: "platform \<Rightarrow> exn + response \<Rightarrow> recipesPage \<Rightarrow> recipesPage" where
  "fetchRecipes P fetched p =
     fetchDone (fetchRecipesResult P fetched) (p\<lparr>isLoading := True, error := None\<rparr>)"

section \<open>The application\<close>

text \<open>
  \<open>App\<close> holds the page, the search parameters and the selected recipe. The state of a
  page lives in the page's component and exists while that component is mounted:
  \<open>{page === 'home' && <HomePage ... />}\<close> mounts the home page with its initial state when
  the condition becomes true and drops the state when it becomes false.
\<close>

record app =
  page :: string
  searchParams :: search_params
  selectedRecipe :: "recipe option"
  homeChild :: "homePage option"
  recipesChild :: "recipesPage option"

definition render :: "app \<Rightarrow> app" where
  \<comment> \<open>the children after a render of \<open>App\<close>; new props start the fetch effect again\<close>
  "render a =
     a\<lparr>homeChild :=
         (if page a = ''home''
          then Some (case homeChild a of Some h \<Rightarrow> h | None \<Rightarrow> initialHomePage)
          else None),
       recipesChild :=
         (if page a = ''recipes''
          then Some (case recipesChild a of
                       Some p \<Rightarrow>
                         if props p = searchParams a then p
                         else p\<lparr>props := searchParams a, isLoading := True, error := None\<rparr>
                     | None \<Rightarrow> mountRecipesPage (searchParams a))
          else None)\<rparr>"

definition initialApp :: app where
  "initialApp =
     render
       \<lparr>page = ''home'',
        searchParams = \<lparr>sp_ingredients = [], sp_dietary = [], sp_servings = 2, sp_cuisine = ''Any''\<rparr>,
        selectedRecipe = None, homeChild = None, recipesChild = None\<rparr>"

definition handleFindRecipes :: "string list \<Rightarrow> string list \<Rightarrow> int \<Rightarrow> string \<Rightarrow> app \<Rightarrow> app" where
  "handleFindRecipes ings diet serv cuis a =
     a\<lparr>searchParams :=
         \<lparr>sp_ingredients = ings, sp_dietary = diet, sp_servings = serv, sp_cuisine = cuis\<rparr>,
       page := ''recipes''\<rparr>"

definition handleSearch :: "homePage \<Rightarrow> app \<Rightarrow> app" where
  "handleSearch h a =
     handleFindRecipes (ingredients h) (selectedDietary (dietary h)) (servings h) (cuisine h) a"

definition handleBackToHome :: "app \<Rightarrow> app" where
  "handleBackToHome a = a\<lparr>page := ''home''\<rparr>"

definition setSelectedRecipe :: "recipe option \<Rightarrow> app \<Rightarrow> app" where
  "setSelectedRecipe r a = a\<lparr>selectedRecipe := r\<rparr>"

definition modalShown :: "app \<Rightarrow> bool" where
  \<comment> \<open>\<open>{selectedRecipe && <RecipeModal ... />}\<close>\<close>
  "modalShown a = (selectedRecipe a \<noteq> None)"

text \<open>
  The events of a session. A control that is not rendered, or is disabled, gives no event:
  the step leaves the state as it is. The modal lies over the page without disabling the
  page's controls, which stay within reach of the keyboard. A settled request comes with
  the outcome of the handler's \<open>try\<close> block; a settled recognition also with the ingredient
  list its handler closed over.
\<close>

datatype event =
    TypeInput string
  | SubmitIngredient
  | ClickPopular string
  | ClickRemove string
  | ChoosePhoto string string
  | ClickRecognize
  | RecognitionSettled "string list" "exn + string list"
  | SelectCuisine string
  | CheckDietary string bool
  | ClickDecrement
  | ClickIncrement
  | ClickFindRecipes
  | FetchSettled "exn + recipe list"
  | ClickDifficulty string
  | SlideMaxTime real
  | ClickRecipe recipe
  | ClickBack
  | ClickClose

definition onHome :: "(homePage \<Rightarrow> homePage) \<Rightarrow> app \<Rightarrow> app" where
  "onHome f a = (case homeChild a of None \<Rightarrow> a | Some h \<Rightarrow> a\<lparr>homeChild := Some (f h)\<rparr>)"

definition onRecipes :: "(recipesPage \<Rightarrow> recipesPage) \<Rightarrow> app \<Rightarrow> app" where
  "onRecipes f a = (case recipesChild a of None \<Rightarrow> a | Some p \<Rightarrow> a\<lparr>recipesChild := Some (f p)\<rparr>)"

definition filtersShown :: "recipesPage \<Rightarrow> bool" where
  "filtersShown p = (\<not> isLoading p \<and> error p = None \<and> length (recipes p) > 0)"

definition cardsShown :: "recipesPage \<Rightarrow> bool" where
  "cardsShown p = (\<not> isLoading p \<and> error p = None \<and> length (filteredRecipes p) > 0)"

fun step :: "app \<Rightarrow> event \<Rightarrow> app" where
  "step a (TypeInput v) = onHome (\<lambda>h. h\<lparr>inputValue := v\<rparr>) a"
| "step a SubmitIngredient = onHome handleAddIngredient a"
| "step a (ClickPopular ing) =
     (if ing \<in> set popularIngredients then onHome (addPopularIngredient ing) a else a)"
| "step a (ClickRemove ing) =
     onHome (handleRemoveIngredient ing) a"
| "step a (ChoosePhoto file url) = onHome (handleImageChange file url) a"
| "step a ClickRecognize =
     onHome (\<lambda>h. if isRecognizing h then h else handleRecognizeIngredients h) a"
| "step a (RecognitionSettled captured result) =
     onHome (\<lambda>h. if isRecognizing h
                  then (case result of
                          Inl err \<Rightarrow> recognizeFailure err h
                        | Inr recognized \<Rightarrow> recognizeSuccess captured recognized h)
                  else h) a"
| "step a (SelectCuisine c) = onHome (\<lambda>h. h\<lparr>cuisine := c\<rparr>) a"
| "step a (CheckDietary name checked) = onHome (handleDietaryChange name checked) a"
| "step a ClickDecrement =
     onHome (\<lambda>h. if servings h \<le> 1 then h else h\<lparr>servings := decrementServings (servings h)\<rparr>) a"
| "step a ClickIncrement = onHome (\<lambda>h. h\<lparr>servings := incrementServings (servings h)\<rparr>) a"
| "step a ClickFindRecipes =
     (case homeChild a of
        None \<Rightarrow> a
      | Some h \<Rightarrow> if length (ingredients h) = 0 then a else render (handleSearch h a))"
| "step a (FetchSettled result) =
     onRecipes (\<lambda>p. if isLoading p then fetchDone result p else p) a"
| "step a (ClickDifficulty d) =
     onRecipes (\<lambda>p. if filtersShown p
                     then filterEffect (p\<lparr>difficultyFilter := handleDifficultyToggle d (difficultyFilter p)\<rparr>)
                     else p) a"
| "step a (SlideMaxTime t) =
     onRecipes (\<lambda>p. if filtersShown p then filterEffect (p\<lparr>maxTimeFilter := t\<rparr>) else p) a"
| "step a (ClickRecipe r) =
     (case recipesChild a of
        None \<Rightarrow> a
      | Some p \<Rightarrow> if cardsShown p \<and> r \<in> set (filteredRecipes p)
                  then setSelectedRecipe (Some r) a else a)"
| "step a ClickBack =
     (case recipesChild a of None \<Rightarrow> a | Some p \<Rightarrow> render (handleBackToHome a))"
| "step a ClickClose = (if modalShown a then setSelectedRecipe None a else a)"

definition run :: "event list \<Rightarrow> app" where
  \<comment> \<open>the state after a session's events\<close>
  "run evs = foldl step initialApp evs"

section \<open>Auxiliary definitions for the proofs and the concrete runs\<close>

definition servingsOk :: "app \<Rightarrow> bool" where
  \<comment> \<open>the invariant of the servings counter\<close>
  "servingsOk a = (case homeChild a of None \<Rightarrow> True | Some h \<Rightarrow> 1 \<le> servings h)"

definition mounted :: "app \<Rightarrow> bool" where
  \<comment> \<open>a page's component is mounted exactly while its page is shown\<close>
  "mounted a =
     ((homeChild a \<noteq> None \<longleftrightarrow> page a = ''home'') \<and>
      (recipesChild a \<noteq> None \<longleftrightarrow> page a = ''recipes''))"

definition storeNormalized :: "string list \<Rightarrow> bool" where
  \<comment> \<open>the invariant of the Ingredient Store that the two add handlers keep\<close>
  "storeNormalized xs = (distinct xs \<and> (\<forall>x \<in> set xs. toLowerCase x = x))"

definition sampleRecipe :: "string \<Rightarrow> string \<Rightarrow> real \<Rightarrow> recipe_data" where
  \<comment> \<open>a recipe as the service sends it, with the given title, difficulty and cooking time\<close>
  "sampleRecipe t d c =
     \<lparr>title = t, imageUrl = [], r_ingredients = [], cookingTime = c, difficulty = d,
      r_dietary = [], rating = 4, description = None, instructions = None,
      nutritionalInfo = None, r_servings = None\<rparr>"

definition trimJsonSpace :: "string \<Rightarrow> string" where
  "trimJsonSpace s = rev (dropWhile isJsonSpace (rev (dropWhile isJsonSpace s)))"

fun stringField :: "string \<Rightarrow> json \<Rightarrow> string" where
  "stringField k (JObj kvs) = (case map_of kvs k of Some (JStr s) \<Rightarrow> s | _ \<Rightarrow> [])"
| "stringField k v = []"

fun numberField :: "string \<Rightarrow> json \<Rightarrow> real" where
  "numberField k (JObj kvs) = (case map_of kvs k of Some (JNum n) \<Rightarrow> n | _ \<Rightarrow> 0)"
| "numberField k v = 0"

definition sampleItems :: string where
  \<open>sampleItems =
     ''{"title":"Rice bowl","difficulty":"Easy","cookingTime":20},'' @
     ''{"title":"Curry","difficulty":"Hard","cookingTime":45}''\<close>

definition sampleBody :: string where
  "sampleBody = ''['' @ sampleItems @ '']''"

definition sampleValues :: "json list" where
  "sampleValues =
     [JObj [(''title'', JStr ''Rice bowl''), (''difficulty'', JStr ''Easy''),
            (''cookingTime'', JNum 20)],
      JObj [(''title'', JStr ''Curry''), (''difficulty'', JStr ''Hard''),
            (''cookingTime'', JNum 45)]]"

definition samplePlatform :: platform where
  \<comment> \<open>a platform for the concrete runs: \<open>JSON.parse\<close> on three texts, with white space
      around them, and the message texts of one browser\<close>
  \<open>samplePlatform =
     \<lparr>JSON_parse =
        (\<lambda>s. map_of
           [(''[]'', JArr []),
            (sampleBody, JArr sampleValues),
            (''{"error":"model unavailable"}'', JObj [(''error'', JStr ''model unavailable'')])]
           (trimJsonSpace s)),
      syntaxErrorMessage = (\<lambda>s. ''Unexpected token''),
      bodyUsedMessage = ''Failed to execute 'text' on 'Response': body stream already read'',
      nullPropertyMessage = ''Cannot read properties of null'',
      notAFunctionMessage = ''parsedRecipes.map is not a function'',
      ToString = (\<lambda>v. ''[object Object]''),
      asRecipe =
        (\<lambda>v. sampleRecipe (stringField ''title'' v) (stringField ''difficulty'' v)
               (numberField ''cookingTime'' v))\<rparr>\<close>

definition plainBody :: string where
  \<comment> \<open>the body of the specification's scenario, four letters that are no JSON text\<close>
  "plainBody = CHR ''o'' # ''ops''"

definition sampleResponse :: "nat \<Rightarrow> string \<Rightarrow> response" where
  \<comment> \<open>a response as \<open>fetch\<close> delivers it, its body not yet read\<close>
  "sampleResponse st b = \<lparr>status = st, body = Some b, bodyUsed = False\<rparr>"

definition sampleSession :: "event list" where
  \<comment> \<open>a search for rice, answered with the two recipes of \<open>sampleBody\<close>\<close>
  "sampleSession =
     [TypeInput ''Rice'', SubmitIngredient, ClickFindRecipes,
      FetchSettled (fetchRecipesResult samplePlatform (Inr (sampleResponse 200 sampleBody)))]"

definition sampleRecipes :: "recipe list" where
  "sampleRecipes =
     [withId (sampleRecipe ''Rice bowl'' ''Easy'' 20) 0, withId (sampleRecipe ''Curry'' ''Hard'' 45) 1]"

section \<open>The filter engine\<close>

lemma filterRecipes_filter:
  "filterRecipes R D T =
     filter (\<lambda>r. (D = [] \<or> difficulty r \<in> set D) \<and> cookingTime r \<le> T) R"
  by (cases D) (simp_all add: filterRecipes_def arrayIncludes_def Let_def conj_commute)

text \<open>
  Claim C1. For every fetched recipe list \<open>R\<close>, difficulty set \<open>D\<close> and maximal time \<open>T\<close>, the
  filter's output is exactly the recipes \<open>r\<close> of \<open>R\<close> with (\<open>D\<close> empty or the difficulty of
  \<open>r\<close> in \<open>D\<close>) and cooking time at most \<open>T\<close>: as a list, as a set, and as the state the
  filter effect leaves in \<open>filteredRecipes\<close>.
\<close>

theorem filterRecipes_exact:
  "filterRecipes R D T =
     filter (\<lambda>r. (D = [] \<or> difficulty r \<in> set D) \<and> cookingTime r \<le> T) R
   \<and> set (filterRecipes R D T) =
       {r \<in> set R. (D = [] \<or> difficulty r \<in> set D) \<and> cookingTime r \<le> T}
   \<and> filteredRecipes (filterEffect p) =
       filter (\<lambda>r. (difficultyFilter p = [] \<or> difficulty r \<in> set (difficultyFilter p))
                    \<and> cookingTime r \<le> maxTimeFilter p) (recipes p)"
  by (auto simp add: filterRecipes_filter filterEffect_def)

text \<open>
  The scenario of the specification: difficulty \<open>{Easy}\<close> and at most 30 minutes keep the
  first of three recipes only.
\<close>

theorem filterRecipes_exact_witness:
  "filterRecipes
     [withId (sampleRecipe ''a'' ''Easy'' 20) 0, withId (sampleRecipe ''b'' ''Easy'' 40) 1,
      withId (sampleRecipe ''c'' ''Hard'' 10) 2] [''Easy''] 30
   = [withId (sampleRecipe ''a'' ''Easy'' 20) 0]"
  using filterRecipes_exact
    [of "[withId (sampleRecipe ''a'' ''Easy'' 20) 0, withId (sampleRecipe ''b'' ''Easy'' 40) 1,
          withId (sampleRecipe ''c'' ''Hard'' 10) 2]" "[''Easy'']" 30]
  by (simp add: withId_def sampleRecipe_def recipe_data.extend_def recipe.fields_def)

text \<open>
  Claim C10. The filter's output keeps the order of the fetched list: it is a subsequence
  of it.
\<close>

theorem filterRecipes_subseq: "subseq (filterRecipes R D T) R"
  by (simp add: filterRecipes_filter)

theorem filterRecipes_subseq_witness:
  "subseq [withId (sampleRecipe ''a'' ''Easy'' 20) 0, withId (sampleRecipe ''c'' ''Hard'' 10) 2]
     [withId (sampleRecipe ''a'' ''Easy'' 20) 0, withId (sampleRecipe ''b'' ''Easy'' 40) 1,
      withId (sampleRecipe ''c'' ''Hard'' 10) 2]"
  using filterRecipes_subseq
    [of "[withId (sampleRecipe ''a'' ''Easy'' 20) 0, withId (sampleRecipe ''b'' ''Easy'' 40) 1,
          withId (sampleRecipe ''c'' ''Hard'' 10) 2]" "[]" 30]
  by (simp add: filterRecipes_def withId_def sampleRecipe_def recipe_data.extend_def
      recipe.fields_def)

section \<open>Sessions\<close>

lemma run_snoc: "run (evs @ [e]) = step (run evs) e"
  by (simp add: run_def)

lemmas home_eval = run_def initialApp_def render_def onHome_def handleAddIngredient_def
  initialHomePage_def toLowerCase_def toLowerChar_def trim_def isSpace_def arrayIncludes_def
  handleSearch_def handleFindRecipes_def handleBackToHome_def selectedDietary_def
  mountRecipesPage_def filterEffect_def filterRecipes_def

text \<open>A page's component is mounted exactly while its page is shown.\<close>

lemma mounted_render: "mounted (render a)"
  by (simp add: mounted_def render_def)

lemma mounted_onHome: "mounted (onHome f a) = mounted a"
  by (simp add: mounted_def onHome_def split: option.splits)

lemma mounted_onRecipes: "mounted (onRecipes f a) = mounted a"
  by (simp add: mounted_def onRecipes_def split: option.splits)

lemma mounted_setSelectedRecipe: "mounted (setSelectedRecipe r a) = mounted a"
  by (simp add: mounted_def setSelectedRecipe_def)

lemma mounted_step: "mounted a \<Longrightarrow> mounted (step a e)"
  by (cases e)
    (simp_all add: mounted_render mounted_onHome mounted_onRecipes mounted_setSelectedRecipe
      split: option.splits)

lemma mounted_run: "mounted (run evs)"
proof (induction evs rule: rev_induct)
  case Nil
  show ?case by (simp add: run_def initialApp_def mounted_render)
next
  case (snoc e evs)
  then show ?case by (simp add: run_snoc mounted_step)
qed

section \<open>The servings counter\<close>

lemma servingsOk_onHome:
  "servingsOk a \<Longrightarrow> (\<And>h. 1 \<le> servings h \<Longrightarrow> 1 \<le> servings (f h)) \<Longrightarrow> servingsOk (onHome f a)"
  by (auto simp add: servingsOk_def onHome_def split: option.splits)

lemma servingsOk_onRecipes: "servingsOk (onRecipes f a) = servingsOk a"
  by (simp add: servingsOk_def onRecipes_def split: option.splits)

lemma servingsOk_step: "servingsOk a \<Longrightarrow> servingsOk (step a e)"
proof (cases e)
  case (TypeInput v)
  then show "servingsOk a \<Longrightarrow> ?thesis" by (simp add: servingsOk_onHome)
next
  case SubmitIngredient
  then show "servingsOk a \<Longrightarrow> ?thesis"
    by (simp add: servingsOk_onHome handleAddIngredient_def Let_def)
next
  case (ClickPopular ing)
  then show "servingsOk a \<Longrightarrow> ?thesis"
    by (simp add: servingsOk_onHome addPopularIngredient_def Let_def)
next
  case (ClickRemove ing)
  then show "servingsOk a \<Longrightarrow> ?thesis"
    by (simp add: servingsOk_onHome handleRemoveIngredient_def)
next
  case (ChoosePhoto f url)
  then show "servingsOk a \<Longrightarrow> ?thesis"
    by (simp add: servingsOk_onHome handleImageChange_def)
next
  case ClickRecognize
  then show "servingsOk a \<Longrightarrow> ?thesis"
    by (simp add: servingsOk_onHome handleRecognizeIngredients_def)
next
  case (RecognitionSettled captured result)
  then show "servingsOk a \<Longrightarrow> ?thesis"
    by (simp add: servingsOk_onHome recognizeFailure_def recognizeSuccess_def Let_def
        split: sum.splits)
next
  case (SelectCuisine c)
  then show "servingsOk a \<Longrightarrow> ?thesis" by (simp add: servingsOk_onHome)
next
  case (CheckDietary name checked)
  then show "servingsOk a \<Longrightarrow> ?thesis"
    by (simp add: servingsOk_onHome handleDietaryChange_def)
next
  case ClickDecrement
  then show "servingsOk a \<Longrightarrow> ?thesis"
    by (simp add: servingsOk_onHome decrementServings_def)
next
  case ClickIncrement
  then show "servingsOk a \<Longrightarrow> ?thesis"
    by (simp add: servingsOk_onHome incrementServings_def)
next
  case ClickFindRecipes
  then show "servingsOk a \<Longrightarrow> ?thesis"
    by (simp add: handleSearch_def handleFindRecipes_def servingsOk_def render_def
        split: option.splits)
next
  case (FetchSettled result)
  then show "servingsOk a \<Longrightarrow> ?thesis" by (simp add: servingsOk_onRecipes)
next
  case (ClickDifficulty d)
  then show "servingsOk a \<Longrightarrow> ?thesis" by (simp add: servingsOk_onRecipes)
next
  case (SlideMaxTime t)
  then show "servingsOk a \<Longrightarrow> ?thesis" by (simp add: servingsOk_onRecipes)
next
  case (ClickRecipe r)
  then show "servingsOk a \<Longrightarrow> ?thesis"
    by (simp add: servingsOk_def setSelectedRecipe_def split: option.splits)
next
  case ClickBack
  then show "servingsOk a \<Longrightarrow> ?thesis"
    by (simp add: handleBackToHome_def servingsOk_def render_def initialHomePage_def
        split: option.splits)
next
  case ClickClose
  then show "servingsOk a \<Longrightarrow> ?thesis"
    by (simp add: servingsOk_def setSelectedRecipe_def)
qed

lemma servingsOk_run: "servingsOk (run evs)"
proof (induction evs rule: rev_induct)
  case Nil
  show ?case
    by (simp add: run_def initialApp_def servingsOk_def render_def initialHomePage_def)
next
  case (snoc e evs)
  then show ?case by (simp add: run_snoc servingsOk_step)
qed

text \<open>
  Claim C9. The servings counter never drops below 1: the decrement yields
  \<open>max 1 (s - 1)\<close>, so 2 gives 1 and 1 stays 1, and in every state a session reaches the
  home page's counter is at least 1.
\<close>

theorem servings_floor:
  "decrementServings s = max 1 (s - 1) \<and> 1 \<le> decrementServings s
   \<and> decrementServings 2 = 1 \<and> decrementServings 1 = 1
   \<and> (\<forall>evs h. homeChild (run evs) = Some h \<longrightarrow> 1 \<le> servings h)"
proof -
  have "1 \<le> servings h" if "homeChild (run evs) = Some h" for evs h
    using servingsOk_run [of evs] that by (simp add: servingsOk_def)
  then show ?thesis by (simp add: decrementServings_def)
qed

text \<open>The scenario of the specification: from 2, two clicks on the minus button leave 1.\<close>

theorem servings_floor_witness:
  "homeChild (run [ClickDecrement, ClickDecrement]) = Some (initialHomePage\<lparr>servings := 1\<rparr>)
   \<and> (1::int) \<le> servings (initialHomePage\<lparr>servings := 1\<rparr>)"
proof -
  have r: "homeChild (run [ClickDecrement, ClickDecrement])
           = Some (initialHomePage\<lparr>servings := 1\<rparr>)"
    by (simp add: run_def initialApp_def render_def onHome_def decrementServings_def
        initialHomePage_def)
  from servings_floor [of 2] r show ?thesis by blast
qed

section \<open>The Ingredient Store\<close>

text \<open>
  The form and the quick-pick buttons keep the store normalized: its entries are lower
  case and pairwise different, so no two of them are equal ignoring case.
\<close>

lemma toLowerChar_idem: "toLowerChar (toLowerChar c) = toLowerChar c"
  by (simp add: toLowerChar_def)

lemma toLowerCase_idem: "toLowerCase (toLowerCase s) = toLowerCase s"
  by (simp add: toLowerCase_def toLowerChar_idem)

lemma handleAddIngredient_normalized:
  "storeNormalized (ingredients h) \<Longrightarrow> storeNormalized (ingredients (handleAddIngredient h))"
  by (simp add: storeNormalized_def handleAddIngredient_def Let_def arrayIncludes_def
      toLowerCase_idem)

lemma addPopularIngredient_normalized:
  "storeNormalized (ingredients h) \<Longrightarrow> storeNormalized (ingredients (addPopularIngredient i h))"
  by (simp add: storeNormalized_def addPopularIngredient_def Let_def arrayIncludes_def
      toLowerCase_idem)

lemma storeNormalized_unique:
  "storeNormalized xs \<Longrightarrow> x \<in> set xs \<Longrightarrow> y \<in> set xs \<Longrightarrow> equalIgnoringCase x y \<Longrightarrow> x = y"
  by (simp add: storeNormalized_def equalIgnoringCase_def)

text \<open>
  Claim C2. Every added item is normalized and the store never holds two entries that are
  equal ignoring case. The merge of recognized ingredients breaks it: after \<open>Chicken\<close> is
  added by the form (stored as \<open>chicken\<close>), a recognition that returns \<open>Chicken\<close> stores it as
  it is, next to \<open>chicken\<close>.
\<close>

theorem recognized_ingredients_not_normalized:
  "map_option ingredients (homeChild (run [TypeInput ''Chicken'', SubmitIngredient]))
     = Some [''chicken'']
   \<and> map_option ingredients
        (homeChild (run [TypeInput ''Chicken'', SubmitIngredient, ChoosePhoto ''photo.jpg'' ''blob:1'',
                         ClickRecognize, RecognitionSettled [''chicken''] (Inr [''Chicken''])]))
     = Some [''chicken'', ''Chicken'']
   \<and> equalIgnoringCase ''chicken'' ''Chicken''
   \<and> toLowerCase (trim ''Chicken'') \<noteq> ''Chicken''"
  by (simp add: home_eval handleImageChange_def handleRecognizeIngredients_def
      recognizeSuccess_def arrayFromSet_def equalIgnoringCase_def)

section \<open>The recipe client: a response that is not ok\<close>

text \<open>
  Whatever is thrown in the inner \<open>try\<close> block is caught by its own \<open>catch\<close>, whose
  \<open>response.text()\<close> comes after \<open>response.json()\<close> has consumed the body: for a response
  that has a body, the branch always ends with the platform's \<open>TypeError\<close> for a body read
  twice. Only a response without a body gets the message with the status, followed by
  the empty text.
\<close>

lemma nonOkError_body:
  "body r \<noteq> None \<Longrightarrow> nonOkError P r = TypeError (bodyUsedMessage P)"
  by (auto simp add: nonOkError_def tryErrorData_def catchErrorData_def response_json_def
      response_text_def split: option.splits)

lemma nonOkError_nullBody:
  "body r = None \<Longrightarrow>
   nonOkError P r = Error (''Server returned status '' @ statusText (status r) @ '': '')"
  by (simp add: nonOkError_def tryErrorData_def catchErrorData_def response_json_def
      response_text_def del: statusText.simps split: option.splits)

lemma error_nonOk:
  "\<not> ok r \<Longrightarrow> body r \<noteq> None \<Longrightarrow>
   error (fetchRecipes P (Inr r) p) = Some (bodyUsedMessage P)"
  by (simp add: fetchRecipes_def fetchDone_def filterEffect_def fetchRecipesResult_def
      nonOkError_body)

text \<open>
  Claim C3. A response that is not ok and whose body is \<open>{"error": "..."}\<close> shows exactly
  that error string. At status 500 with the body \<open>{"error":"model unavailable"}\<close> the
  message shown is instead the platform's message for a body read twice, on every
  platform; on the sample platform the inner \<open>try\<close> block did throw
  \<open>Error("model unavailable")\<close>, which is lost.
\<close>

theorem structured_error_message_lost:
  \<open>error (fetchRecipes P (Inr (sampleResponse 500 ''{"error":"model unavailable"}'')) p)
     = Some (bodyUsedMessage P)
   \<and> fst (tryErrorData samplePlatform (sampleResponse 500 ''{"error":"model unavailable"}''))
     = Error ''model unavailable''
   \<and> error (fetchRecipes samplePlatform
              (Inr (sampleResponse 500 ''{"error":"model unavailable"}'')) p)
     = Some ''Failed to execute 'text' on 'Response': body stream already read''\<close>
proof -
  have n: \<open>\<not> ok (sampleResponse 500 ''{"error":"model unavailable"}'')\<close>
    by (simp add: ok_def sampleResponse_def)
  have b: \<open>body (sampleResponse 500 ''{"error":"model unavailable"}'') \<noteq> None\<close>
    by (simp add: sampleResponse_def)
  have t: \<open>fst (tryErrorData samplePlatform (sampleResponse 500 ''{"error":"model unavailable"}''))
           = Error ''model unavailable''\<close>
    by (simp add: tryErrorData_def response_json_def sampleResponse_def samplePlatform_def
        trimJsonSpace_def isJsonSpace_def errorFromData_def sampleBody_def sampleItems_def)
  have m: "bodyUsedMessage samplePlatform
           = ''Failed to execute 'text' on 'Response': body stream already read''"
    by (simp add: samplePlatform_def)
  have e: \<open>error (fetchRecipes Q (Inr (sampleResponse 500 ''{"error":"model unavailable"}'')) p)
           = Some (bodyUsedMessage Q)\<close> for Q
    using n b by (rule error_nonOk)
  have \<open>error (fetchRecipes samplePlatform (Inr (sampleResponse 500 ''{"error":"model unavailable"}'')) p)
        = Some ''Failed to execute 'text' on 'Response': body stream already read''\<close>
    using e [of samplePlatform] by (simp only: m)
  with e [of P] t show ?thesis by blast
qed

text \<open>
  Claim C4. A response that is not ok and whose body is no JSON shows a message that
  holds the status and the body's text. At status 500 with the body of the specification's
  scenario (\<open>plainBody\<close>) the inner \<open>try\<close> block ends with the \<open>SyntaxError\<close> of
  \<open>response.json()\<close>, and the message shown is the platform's message for a body read
  twice, on every platform: it holds neither the status nor the body's text.
\<close>

theorem fallback_error_message_lost:
  "error (fetchRecipes P (Inr (sampleResponse 500 plainBody)) p) = Some (bodyUsedMessage P)
   \<and> fst (tryErrorData samplePlatform (sampleResponse 500 plainBody))
     = SyntaxError ''Unexpected token''
   \<and> error (fetchRecipes samplePlatform (Inr (sampleResponse 500 plainBody)) p)
     = Some ''Failed to execute 'text' on 'Response': body stream already read''"
proof -
  have n: "\<not> ok (sampleResponse 500 plainBody)"
    by (simp add: ok_def sampleResponse_def)
  have b: "body (sampleResponse 500 plainBody) \<noteq> None"
    by (simp add: sampleResponse_def)
  have t: "fst (tryErrorData samplePlatform (sampleResponse 500 plainBody))
           = SyntaxError ''Unexpected token''"
    by (simp add: tryErrorData_def response_json_def sampleResponse_def samplePlatform_def
        trimJsonSpace_def isJsonSpace_def sampleBody_def sampleItems_def plainBody_def)
  have m: "bodyUsedMessage samplePlatform
           = ''Failed to execute 'text' on 'Response': body stream already read''"
    by (simp add: samplePlatform_def)
  have e: "error (fetchRecipes Q (Inr (sampleResponse 500 plainBody)) p)
           = Some (bodyUsedMessage Q)" for Q
    using n b by (rule error_nonOk)
  have "error (fetchRecipes samplePlatform (Inr (sampleResponse 500 plainBody)) p)
        = Some ''Failed to execute 'text' on 'Response': body stream already read''"
    using e [of samplePlatform] by (simp only: m)
  with e [of P] t show ?thesis by blast
qed

section \<open>The recipe client: cleaning the response text\<close>

lemma dropWhile_all: "list_all Q l \<Longrightarrow> dropWhile Q (l @ s) = dropWhile Q s"
  by (induction l) simp_all

lemma stripFenceEnd_append: "stripFenceEnd (s @ fenceEnd) = s"
  by (simp add: stripFenceEnd_def suffix_def)

lemma stripFenceEnd_keep: "s \<noteq> [] \<Longrightarrow> last s \<noteq> CHR 0x60 \<Longrightarrow> stripFenceEnd s = s"
  by (auto simp add: stripFenceEnd_def fenceEnd_def suffix_def)

lemma stripFenceStart_keep: "s \<noteq> [] \<Longrightarrow> hd s \<noteq> CHR 0x60 \<Longrightarrow> stripFenceStart s = s"
  by (cases s) (auto simp add: stripFenceStart_def fenceStart_def)

lemma stripFenceStart_fenced:
  "list_all isSpace w \<Longrightarrow> \<not> isSpace c \<Longrightarrow>
   stripFenceStart (fenceStart @ w @ c # s) = c # s"
  by (simp add: stripFenceStart_def dropWhile_all)

lemma jsonSpace_space: "isJsonSpace c \<Longrightarrow> isSpace c"
  by (auto simp add: isJsonSpace_def isSpace_def)

lemma list_all_jsonSpace_space: "list_all isJsonSpace l \<Longrightarrow> list_all isSpace l"
  by (induction l) (simp_all add: jsonSpace_space)

lemma backtick_not_jsonSpace: "\<not> isJsonSpace CHR 0x60"
  by (simp add: isJsonSpace_def)

lemma cleanText_bare:
  assumes "list_all isJsonSpace l" "list_all isJsonSpace t"
  shows "cleanText (l @ ''['' @ mid @ '']'' @ t) = l @ ''['' @ mid @ '']'' @ t"
proof -
  let ?B = "l @ ''['' @ mid @ '']'' @ t"
  have h: "hd ?B \<noteq> CHR 0x60"
    using assms(1) backtick_not_jsonSpace by (cases l) auto
  have e: "last ?B \<noteq> CHR 0x60"
  proof (cases t rule: rev_cases)
    case Nil
    then show ?thesis by simp
  next
    case (snoc t' c)
    with assms(2) have "isJsonSpace c" by simp
    with backtick_not_jsonSpace have "c \<noteq> CHR 0x60" by auto
    with snoc show ?thesis by simp
  qed
  have ne: "?B \<noteq> []" by simp
  have "stripFenceStart ?B = ?B"
    using ne h by (rule stripFenceStart_keep)
  moreover have "stripFenceEnd ?B = ?B"
    using ne e by (rule stripFenceEnd_keep)
  ultimately show ?thesis
    unfolding cleanText_def by (simp only:)
qed

lemma cleanText_fenced:
  assumes "list_all isSpace w1" "list_all isJsonSpace l"
  shows "cleanText (fenceStart @ w1 @ (l @ ''['' @ mid @ '']'' @ t) @ w2 @ fenceEnd)
         = ''['' @ mid @ '']'' @ t @ w2"
proof -
  have w: "list_all isSpace (w1 @ l)"
    using assms by (simp add: list_all_jsonSpace_space)
  have "stripFenceStart (fenceStart @ (w1 @ l) @ CHR ''['' # (mid @ '']'' @ t @ w2 @ fenceEnd))
        = CHR ''['' # (mid @ '']'' @ t @ w2 @ fenceEnd)"
    using w by (rule stripFenceStart_fenced) (simp add: isSpace_def)
  then have "stripFenceStart (fenceStart @ w1 @ (l @ ''['' @ mid @ '']'' @ t) @ w2 @ fenceEnd)
        = (''['' @ mid @ '']'' @ t @ w2) @ fenceEnd"
    by simp
  then show ?thesis
    unfolding cleanText_def by (simp only: stripFenceEnd_append)
qed

lemma trimJsonSpace_pad:
  assumes "list_all isJsonSpace l" "list_all isJsonSpace t"
  shows "trimJsonSpace (l @ s @ t) = trimJsonSpace s"
proof -
  have 1: "dropWhile isJsonSpace (l @ s @ t) = dropWhile isJsonSpace (s @ t)"
    using assms(1) by (rule dropWhile_all)
  have 2: "dropWhile isJsonSpace (rev (dropWhile isJsonSpace (s @ t)))
           = dropWhile isJsonSpace (rev (dropWhile isJsonSpace s))"
  proof (cases "list_all isJsonSpace s")
    case True
    then have a: "dropWhile isJsonSpace s = []"
      by (simp add: list_all_iff)
    from True assms(2) have b: "dropWhile isJsonSpace (s @ t) = []"
      by (auto simp add: list_all_iff)
    show ?thesis by (simp only: a b)
  next
    case False
    then obtain x where "x \<in> set s" "\<not> isJsonSpace x" by (auto simp add: list_all_iff)
    then have "dropWhile isJsonSpace (s @ t) = dropWhile isJsonSpace s @ t"
      by (rule dropWhile_append1)
    moreover have "list_all isJsonSpace (rev t)" using assms(2) by (simp add: list_all_iff)
    ultimately show ?thesis by (simp add: dropWhile_all)
  qed
  show ?thesis unfolding trimJsonSpace_def by (simp only: 1 2)
qed

lemma sample_ws:
  "\<forall>l s t. list_all isJsonSpace l \<and> list_all isJsonSpace t
     \<longrightarrow> JSON_parse samplePlatform (l @ s @ t) = JSON_parse samplePlatform s"
  by (simp add: samplePlatform_def trimJsonSpace_pad)

lemma fetch_ok_text:
  "ok r \<Longrightarrow> \<not> bodyUsed r \<Longrightarrow> fetchRecipesResult P (Inr r) = parseRecipes P (bodyText r)"
  by (simp add: fetchRecipesResult_def response_text_def bodyText_def split: option.splits)

text \<open>The sample platform on the sample body.\<close>

lemma sample_clean: "cleanText sampleBody = sampleBody"
  using cleanText_bare [of "[]" "[]" sampleItems] by (simp add: sampleBody_def)

lemma sample_parse: "JSON_parse samplePlatform sampleBody = Some (JArr sampleValues)"
  by (simp add: samplePlatform_def trimJsonSpace_def sampleBody_def sampleItems_def isJsonSpace_def)

lemma sample_result:
  "fetchRecipesResult samplePlatform (Inr (sampleResponse 200 sampleBody)) = Inr sampleRecipes"
proof -
  have "parseRecipes samplePlatform sampleBody = Inr (recipesWithIds (map (asRecipe samplePlatform) sampleValues))"
    by (simp add: parseRecipes_def sample_clean sample_parse)
  moreover have "recipesWithIds (map (asRecipe samplePlatform) sampleValues) = sampleRecipes"
    by (simp add: recipesWithIds_def sampleValues_def samplePlatform_def sampleRecipes_def)
  ultimately show ?thesis
    by (simp add: fetch_ok_text ok_def sampleResponse_def bodyText_def)
qed

lemma sample_recipes:
  "recipesWithIds (map (asRecipe samplePlatform) sampleValues) = sampleRecipes"
  by (simp add: recipesWithIds_def sampleValues_def samplePlatform_def sampleRecipes_def)

section \<open>The recipe client: ids\<close>

lemma length_mapIndexed: "length (mapIndexed f i xs) = length xs"
  by (induction xs arbitrary: i) simp_all

lemma nth_mapIndexed: "n < length xs \<Longrightarrow> mapIndexed f i xs ! n = f (xs ! n) (i + n)"
proof (induction xs arbitrary: i n)
  case Nil
  then show ?case by simp
next
  case (Cons x xs)
  then show ?case by (cases n) simp_all
qed

lemma recipe_id_withId: "recipe_id (withId r i) = i"
  by (simp add: withId_def recipe_data.extend_def recipe.fields_def)

lemma ids_mapIndexed: "map recipe_id (mapIndexed withId i xs) = [i..<i + length xs]"
proof (induction xs arbitrary: i)
  case Nil
  then show ?case by simp
next
  case (Cons x xs)
  have "[i..<i + length (x # xs)] = i # [Suc i..<Suc i + length xs]"
    by (simp add: upt_rec)
  with Cons show ?case by (simp add: recipe_id_withId)
qed

text \<open>
  Claim C5. An ok response whose cleaned text parses to an array of \<open>N\<close> recipes gives a
  recipe list of length \<open>N\<close> with the ids \<open>0..N-1\<close> in the order of the response: the recipe
  at position \<open>i\<close> is the \<open>i\<close>-th element of the array with the id \<open>i\<close>.
\<close>

theorem recipe_ids_sequential:
  assumes "ok r" and "\<not> bodyUsed r"
    and "JSON_parse P (cleanText (bodyText r)) = Some (JArr xs)"
  shows "\<exists>rs. fetchRecipesResult P (Inr r) = Inr rs
            \<and> recipes (fetchRecipes P (Inr r) p) = rs
            \<and> length rs = length xs
            \<and> map recipe_id rs = [0..<length xs]
            \<and> (\<forall>i<length xs. rs ! i = withId (asRecipe P (xs ! i)) i)"
proof -
  let ?rs = "recipesWithIds (map (asRecipe P) xs)"
  have res: "fetchRecipesResult P (Inr r) = Inr ?rs"
    using assms by (simp add: fetch_ok_text parseRecipes_def)
  have st: "recipes (fetchRecipes P (Inr r) p) = ?rs"
    by (simp add: fetchRecipes_def fetchDone_def filterEffect_def res)
  have len: "length ?rs = length xs"
    by (simp add: recipesWithIds_def length_mapIndexed)
  have ids: "map recipe_id ?rs = [0..<length xs]"
    using ids_mapIndexed [of 0 "map (asRecipe P) xs"] by (simp add: recipesWithIds_def)
  have nth: "?rs ! i = withId (asRecipe P (xs ! i)) i" if "i < length xs" for i
    using that by (simp add: recipesWithIds_def nth_mapIndexed)
  from res st len ids nth show ?thesis by blast
qed

theorem recipe_ids_sequential_witness:
  "ok (sampleResponse 200 sampleBody) \<and> \<not> bodyUsed (sampleResponse 200 sampleBody)
   \<and> JSON_parse samplePlatform (cleanText (bodyText (sampleResponse 200 sampleBody))) = Some (JArr sampleValues)
   \<and> fetchRecipesResult samplePlatform (Inr (sampleResponse 200 sampleBody)) = Inr sampleRecipes
   \<and> map recipe_id sampleRecipes = [0, 1]"
proof -
  have a: "ok (sampleResponse 200 sampleBody)" by (simp add: ok_def sampleResponse_def)
  have b: "\<not> bodyUsed (sampleResponse 200 sampleBody)" by (simp add: sampleResponse_def)
  have c: "JSON_parse samplePlatform (cleanText (bodyText (sampleResponse 200 sampleBody))) = Some (JArr sampleValues)"
    by (simp add: sampleResponse_def bodyText_def sample_clean sample_parse)
  have d: "length sampleValues = 2" by (simp add: sampleValues_def)
  from recipe_ids_sequential [OF a b c, of undefined] obtain rs where
    "fetchRecipesResult samplePlatform (Inr (sampleResponse 200 sampleBody)) = Inr rs"
    "map recipe_id rs = [0..<length sampleValues]"
    by blast
  with sample_result d have "map recipe_id sampleRecipes = [0..<2]" by simp
  then have "map recipe_id sampleRecipes = [0, 1]" by (simp add: upt_rec)
  with a b c sample_result show ?thesis by simp
qed

section \<open>The recipe client: fenced responses\<close>

text \<open>
  Claim C6. A JSON array body wrapped in a leading \<open>```json\<close> fence and a trailing
  \<open>```\<close> fence gives the same parsed recipe list as the body alone. The body is an array
  text, with or without JSON white space around it, that \<open>JSON.parse\<close> accepts; white space
  may follow the leading fence, JSON white space may precede the trailing one; and
  \<open>JSON.parse\<close> ignores JSON white space around a text, as the JSON grammar has it.
\<close>

theorem fenced_response_parses_alike:
  assumes ws: "\<forall>l s t. list_all isJsonSpace l \<and> list_all isJsonSpace t
                 \<longrightarrow> JSON_parse P (l @ s @ t) = JSON_parse P s"
    and B: "B = l @ ''['' @ mid @ '']'' @ t" "list_all isJsonSpace l" "list_all isJsonSpace t"
    and valid: "JSON_parse P B = Some (JArr xs)"
    and w1: "list_all isSpace w1" and w2: "list_all isJsonSpace w2"
  shows "parseRecipes P (fenceStart @ w1 @ B @ w2 @ fenceEnd) = parseRecipes P B
         \<and> parseRecipes P B = Inr (recipesWithIds (map (asRecipe P) xs))"
proof -
  let ?core = "''['' @ mid @ '']''"
  have bare: "cleanText B = B"
    using B by (simp only: cleanText_bare)
  have fenced: "cleanText (fenceStart @ w1 @ B @ w2 @ fenceEnd) = ?core @ t @ w2"
    using cleanText_fenced [OF w1 B(2), of mid t w2] by (simp add: B(1))
  have "JSON_parse P (l @ ?core @ t) = JSON_parse P ?core"
    using ws B(2,3) by blast
  moreover have "JSON_parse P ([] @ ?core @ (t @ w2)) = JSON_parse P ?core"
  proof -
    have "list_all isJsonSpace [] \<and> list_all isJsonSpace (t @ w2)"
      using B(3) w2 by simp
    with ws show ?thesis by blast
  qed
  ultimately have "JSON_parse P (?core @ t @ w2) = JSON_parse P B"
    using B(1) by simp
  with valid bare fenced show ?thesis
    by (simp add: parseRecipes_def)
qed

text \<open>The form of the specification: a line break after the leading and before the trailing fence.\<close>

theorem fenced_response_parses_alike_witness:
  "parseRecipes samplePlatform (''```json'' @ [CHR 0x0A] @ sampleBody @ [CHR 0x0A] @ ''```'')
   = Inr sampleRecipes
   \<and> parseRecipes samplePlatform sampleBody = Inr sampleRecipes"
proof -
  have B: "sampleBody = [] @ ''['' @ sampleItems @ '']'' @ []" by (simp add: sampleBody_def)
  have e: "list_all isJsonSpace []" by simp
  have w1: "list_all isSpace [CHR 0x0A]" by (simp add: isSpace_def)
  have w2: "list_all isJsonSpace [CHR 0x0A]" by (simp add: isJsonSpace_def)
  have r: "recipesWithIds (map (asRecipe samplePlatform) sampleValues) = sampleRecipes"
    by (simp add: recipesWithIds_def sampleValues_def samplePlatform_def sampleRecipes_def)
  from fenced_response_parses_alike [OF sample_ws B e e sample_parse w1 w2] r show ?thesis
    by (simp add: fenceStart_def fenceEnd_def)
qed

section \<open>The view router\<close>

lemma selectedRecipe_render: "selectedRecipe (render a) = selectedRecipe a"
  by (simp add: render_def)

lemma selectedRecipe_onHome: "selectedRecipe (onHome f a) = selectedRecipe a"
  by (simp add: onHome_def split: option.splits)

lemma selectedRecipe_onRecipes: "selectedRecipe (onRecipes f a) = selectedRecipe a"
  by (simp add: onRecipes_def split: option.splits)

lemma back_keeps_selection: "selectedRecipe (step a ClickBack) = selectedRecipe a"
  by (simp add: selectedRecipe_render handleBackToHome_def split: option.splits)

lemma hidden_only_by_close:
  assumes "modalShown a" "\<not> modalShown (step a e)"
  shows "e = ClickClose"
  using assms
  by (cases e)
    (auto simp add: modalShown_def selectedRecipe_render selectedRecipe_onHome
      selectedRecipe_onRecipes handleSearch_def handleFindRecipes_def handleBackToHome_def
      setSelectedRecipe_def split: option.splits if_splits)

lemma close_hides: "\<not> modalShown (step a ClickClose)"
  by (simp add: modalShown_def setSelectedRecipe_def)

lemma opens_only_from_recipes:
  assumes "\<not> modalShown a" "modalShown (step a e)"
  shows "recipesChild a \<noteq> None"
  using assms
  by (cases e)
    (auto simp add: modalShown_def selectedRecipe_render selectedRecipe_onHome
      selectedRecipe_onRecipes handleSearch_def handleFindRecipes_def handleBackToHome_def
      setSelectedRecipe_def split: option.splits if_splits)

text \<open>The sample session: the state after the search has been answered.\<close>

lemma sampleSession_state:
  "page (run sampleSession) = ''recipes'' \<and> selectedRecipe (run sampleSession) = None
   \<and> map_option filteredRecipes (recipesChild (run sampleSession)) = Some sampleRecipes
   \<and> map_option isLoading (recipesChild (run sampleSession)) = Some False
   \<and> map_option error (recipesChild (run sampleSession)) = Some None"
  by (simp add: sampleSession_def sample_result home_eval onRecipes_def fetchDone_def
      sampleRecipes_def withId_def sampleRecipe_def recipe_data.extend_def recipe.fields_def)

lemma sampleSession_select:
  "step (run sampleSession) (ClickRecipe (hd sampleRecipes))
   = setSelectedRecipe (Some (hd sampleRecipes)) (run sampleSession)"
  using sampleSession_state
  by (auto simp add: cardsShown_def sampleRecipes_def split: option.splits)

text \<open>
  Claim C7, as stated: the transition from recipes back to home leaves the ingredient list
  as it was entered before the search. It does not: after \<open>rice\<close> has been added and
  searched for, going back shows an empty list.
\<close>

theorem back_to_home_forgets_ingredients:
  "map_option ingredients (homeChild (run [TypeInput ''Rice'', SubmitIngredient])) = Some [''rice'']
   \<and> map_option ingredients
        (homeChild (run [TypeInput ''Rice'', SubmitIngredient, ClickFindRecipes, ClickBack])) = Some []"
  by (simp add: home_eval)

text \<open>The search parameters hold the ingredient list that was submitted with the search.\<close>

lemma submitted_list_kept:
  "homeChild a = Some h \<Longrightarrow> ingredients h \<noteq> [] \<Longrightarrow>
   sp_ingredients (searchParams (step a ClickFindRecipes)) = ingredients h"
  by (simp add: render_def handleSearch_def handleFindRecipes_def)

text \<open>
  Claim C7, amended. The transition from recipes back to home mounts the home page
  afresh: its ingredient list is empty and its other inputs are at their defaults. The
  router's search parameters, which hold the ingredient list submitted with the search,
  are left unchanged; the home page does not read them.
\<close>

theorem back_to_home_remounts:
  assumes "page (run evs) = ''recipes''"
  shows "page (step (run evs) ClickBack) = ''home''
         \<and> homeChild (step (run evs) ClickBack) = Some initialHomePage
         \<and> ingredients initialHomePage = []
         \<and> searchParams (step (run evs) ClickBack) = searchParams (run evs)"
proof -
  have m: "mounted (run evs)" by (rule mounted_run)
  with assms obtain p where p: "recipesChild (run evs) = Some p" and h: "homeChild (run evs) = None"
    by (auto simp add: mounted_def)
  then show ?thesis
    by (simp add: render_def handleBackToHome_def initialHomePage_def)
qed

theorem back_to_home_remounts_witness:
  "page (run [TypeInput ''Rice'', SubmitIngredient, ClickFindRecipes]) = ''recipes''
   \<and> sp_ingredients (searchParams (run [TypeInput ''Rice'', SubmitIngredient, ClickFindRecipes])) = [''rice'']
   \<and> homeChild (run [TypeInput ''Rice'', SubmitIngredient, ClickFindRecipes, ClickBack]) = Some initialHomePage
   \<and> sp_ingredients (searchParams (run [TypeInput ''Rice'', SubmitIngredient, ClickFindRecipes, ClickBack])) = [''rice'']"
proof -
  have p: "page (run [TypeInput ''Rice'', SubmitIngredient, ClickFindRecipes]) = ''recipes''"
    by (simp add: home_eval)
  have q: "sp_ingredients (searchParams (run [TypeInput ''Rice'', SubmitIngredient, ClickFindRecipes])) = [''rice'']"
    by (simp add: home_eval)
  have s: "run [TypeInput ''Rice'', SubmitIngredient, ClickFindRecipes, ClickBack]
           = step (run [TypeInput ''Rice'', SubmitIngredient, ClickFindRecipes]) ClickBack"
    using run_snoc [of "[TypeInput ''Rice'', SubmitIngredient, ClickFindRecipes]" ClickBack] by simp
  let ?a = "run [TypeInput ''Rice'', SubmitIngredient, ClickFindRecipes]"
  have c: "page (step ?a ClickBack) = ''home''
         \<and> homeChild (step ?a ClickBack) = Some initialHomePage
         \<and> ingredients initialHomePage = []
         \<and> searchParams (step ?a ClickBack) = searchParams ?a"
    using p by (rule back_to_home_remounts)
  then have "searchParams (step ?a ClickBack) = searchParams ?a" by blast
  with q have "sp_ingredients (searchParams (step ?a ClickBack)) = [''rice'']"
    by (simp only:)
  with c p q show ?thesis unfolding s by blast
qed

text \<open>
  Claim C8, as stated: in every reachable state the overlay is shown only on the recipes
  page, and going back to home closes it. It does not: after a recipe has been selected,
  going back leads to the home page with the overlay still shown.
\<close>

theorem overlay_over_home_reachable:
  "page (run (sampleSession @ [ClickRecipe (hd sampleRecipes), ClickBack])) = ''home''
   \<and> modalShown (run (sampleSession @ [ClickRecipe (hd sampleRecipes), ClickBack]))"
proof -
  let ?a = "run sampleSession"
  let ?b = "step ?a (ClickRecipe (hd sampleRecipes))"
  have r: "run (sampleSession @ [ClickRecipe (hd sampleRecipes), ClickBack]) = step ?b ClickBack"
    by (simp add: run_def)
  have b: "?b = setSelectedRecipe (Some (hd sampleRecipes)) ?a"
    by (rule sampleSession_select)
  have rc: "recipesChild ?b \<noteq> None"
    using sampleSession_state unfolding b by (auto simp add: setSelectedRecipe_def)
  then have "page (step ?b ClickBack) = ''home''"
    by (auto simp add: render_def handleBackToHome_def)
  moreover have "selectedRecipe (step ?b ClickBack) = selectedRecipe ?b"
    by (rule back_keeps_selection)
  then have "modalShown (step ?b ClickBack)"
    unfolding b by (simp add: modalShown_def setSelectedRecipe_def)
  ultimately show ?thesis by (simp only: r)
qed

text \<open>
  Claim C8, amended. In every reachable state, the overlay is opened only from the recipes
  page, and the back transition, which leads from the recipes page to home, leaves the
  overlay as it is: shown after it if and only if it was shown before. Only the overlay's
  close control hides it: the close event leaves no overlay, and an event after which an
  open overlay is no longer shown is the close event.
\<close>

theorem overlay_kept_by_back:
  "modalShown (step (run evs) ClickBack) = modalShown (run evs)
   \<and> (page (run evs) = ''recipes'' \<longrightarrow> page (step (run evs) ClickBack) = ''home'')
   \<and> (\<not> modalShown (run evs) \<and> modalShown (step (run evs) e) \<longrightarrow> page (run evs) = ''recipes'')
   \<and> \<not> modalShown (step (run evs) ClickClose)
   \<and> (modalShown (run evs) \<and> \<not> modalShown (step (run evs) e) \<longrightarrow> e = ClickClose)"
proof -
  have m: "mounted (run evs)" by (rule mounted_run)
  have 1: "modalShown (step (run evs) ClickBack) = modalShown (run evs)"
    by (simp only: modalShown_def back_keeps_selection)
  have 2: "page (step (run evs) ClickBack) = ''home''" if "page (run evs) = ''recipes''"
    using m that by (auto simp add: mounted_def render_def handleBackToHome_def split: option.splits)
  have 3: "page (run evs) = ''recipes''"
    if "\<not> modalShown (run evs) \<and> modalShown (step (run evs) e)"
    using opens_only_from_recipes [of "run evs" e] that m by (simp add: mounted_def)
  have 4: "\<not> modalShown (step (run evs) ClickClose)"
    by (rule close_hides)
  have 5: "e = ClickClose" if "modalShown (run evs) \<and> \<not> modalShown (step (run evs) e)"
    using hidden_only_by_close [of "run evs" e] that by blast
  from 1 2 3 4 5 show ?thesis by blast
qed

text \<open>
  The sample session: the first recipe is selected from the recipes page, the back
  transition leads to home, and the close control hides the overlay that was opened.
\<close>

theorem overlay_kept_by_back_witness:
  "\<not> modalShown (run sampleSession)
   \<and> modalShown (step (run sampleSession) (ClickRecipe (hd sampleRecipes)))
   \<and> page (run sampleSession) = ''recipes''
   \<and> page (step (run sampleSession) ClickBack) = ''home''
   \<and> modalShown (run (sampleSession @ [ClickRecipe (hd sampleRecipes)]))
   \<and> \<not> modalShown (step (run (sampleSession @ [ClickRecipe (hd sampleRecipes)])) ClickClose)"
proof -
  have a: "\<not> modalShown (run sampleSession)"
    using sampleSession_state by (simp add: modalShown_def)
  have b: "modalShown (step (run sampleSession) (ClickRecipe (hd sampleRecipes)))"
    unfolding sampleSession_select by (simp add: modalShown_def setSelectedRecipe_def)
  have c: "modalShown (run (sampleSession @ [ClickRecipe (hd sampleRecipes)]))"
    using b by (simp only: run_snoc)
  from overlay_kept_by_back [of sampleSession "ClickRecipe (hd sampleRecipes)"] a b
  have d: "page (run sampleSession) = ''recipes''
           \<and> page (step (run sampleSession) ClickBack) = ''home''"
    by blast
  from overlay_kept_by_back [of "sampleSession @ [ClickRecipe (hd sampleRecipes)]" ClickClose] c
  have e: "\<not> modalShown (step (run (sampleSession @ [ClickRecipe (hd sampleRecipes)])) ClickClose)"
    by blast
  from a b c d e show ?thesis by blast
qed

end
